theory Spec2Isabelle
  imports Main
begin

section \<open>The host facility: Go values, types and storage\<close>

text \<open>
  \<^verbatim>\<open>field.go\<close> is written against Go's \<^verbatim>\<open>reflect\<close> package. This section models the
  part of it that the file calls. The kinds covered are bool, int, string, pointer,
  struct and the empty interface; floats, funcs, slices, maps, arrays and channels are
  outside the model, and so are recursive type declarations. A struct type with a name
  is a defined type; with the empty name it is the unnamed struct type of its fields.
  Equal types of the model are identical types of Go. A struct tag is taken as
  the already parsed list of key/value pairs, and a name is looked up among the
  immediate fields of a struct type only (promotion through embedded structs is not
  modelled).
\<close>

datatype Kind = KInvalid | KBool | KInt | KString | KPtr | KStruct | KInterface

datatype Type = TBool | TInt | TString | TPtr Type | TStruct string "StructField list"
  | TInterface
and StructField =
  StructField (Name: string) (PkgPath: string) (Typ: Type) (Tag: "(string \<times> string) list")
    (Anonymous: bool)

text \<open>A location is an allocated object and a path of field indices into it.\<close>

type_synonym loc = "nat \<times> nat list"

datatype val = VBool bool | VInt int | VString string | VPtr "loc option"
  | VStruct "val list" | VIface "(Type \<times> val) option"

text \<open>\<^verbatim>\<open>interface{}\<close>: nil, or a dynamic type with its value.\<close>

type_synonym any = "(Type \<times> val) option"

type_synonym heap = "nat \<Rightarrow> val option"

datatype panic = Panic string

fun Type_Kind :: "Type \<Rightarrow> Kind" where
  "Type_Kind TBool = KBool"
| "Type_Kind TInt = KInt"
| "Type_Kind TString = KString"
| "Type_Kind (TPtr t) = KPtr"
| "Type_Kind (TStruct n fs) = KStruct"
| "Type_Kind TInterface = KInterface"

fun get_path :: "val \<Rightarrow> nat list \<Rightarrow> val option" where
  "get_path v [] = Some v"
| "get_path v (i # p) =
     (case v of
        VStruct vs \<Rightarrow> if i < length vs then get_path (vs ! i) p else None
      | _ \<Rightarrow> None)"

fun set_path :: "val \<Rightarrow> nat list \<Rightarrow> val \<Rightarrow> val option" where
  "set_path v [] x = Some x"
| "set_path v (i # p) x =
     (case v of
        VStruct vs \<Rightarrow>
          if i < length vs
          then (case set_path (vs ! i) p x of
                  None \<Rightarrow> None
                | Some w \<Rightarrow> Some (VStruct (vs[i := w])))
          else None
      | _ \<Rightarrow> None)"

definition load :: "heap \<Rightarrow> loc \<Rightarrow> val option" where
  "load h l = (case h (fst l) of None \<Rightarrow> None | Some v \<Rightarrow> get_path v (snd l))"

definition store :: "heap \<Rightarrow> loc \<Rightarrow> val \<Rightarrow> heap option" where
  "store h l x =
     (case h (fst l) of
        None \<Rightarrow> None
      | Some v \<Rightarrow>
          (case set_path v (snd l) x of
             None \<Rightarrow> None
           | Some w \<Rightarrow> Some (h(fst l \<mapsto> w))))"

text \<open>
  \<^verbatim>\<open>reflect.Value\<close>: the zero Value, or a type, the two read-only flags
  (\<^verbatim>\<open>flagStickyRO\<close>, \<^verbatim>\<open>flagEmbedRO\<close>) and the storage: the original location
  (\<^verbatim>\<open>flagAddr\<close> set) or a detached copy of the value.
\<close>

datatype Storage = Addr loc | Copy val

datatype Value = ZeroValue | Value Type bool bool Storage

definition fault :: panic where
  "fault = Panic ''invalid memory address or nil pointer dereference''"

fun contents :: "heap \<Rightarrow> Storage \<Rightarrow> val option" where
  "contents h (Addr l) = load h l"
| "contents h (Copy v) = Some v"

fun Value_Kind :: "Value \<Rightarrow> Kind" where
  "Value_Kind ZeroValue = KInvalid"
| "Value_Kind (Value t s e st) = Type_Kind t"

fun Value_Type :: "Value \<Rightarrow> panic + Type" where
  "Value_Type ZeroValue = Inl (Panic ''reflect: call of reflect.Value.Type on zero Value'')"
| "Value_Type (Value t s e st) = Inr t"

fun flagRO :: "Value \<Rightarrow> bool" where
  "flagRO ZeroValue = False"
| "flagRO (Value t s e st) = (s \<or> e)"

fun Value_CanAddr :: "Value \<Rightarrow> bool" where
  "Value_CanAddr (Value t s e (Addr l)) = True"
| "Value_CanAddr v = False"

definition Value_CanSet :: "Value \<Rightarrow> bool" where
  "Value_CanSet v = (Value_CanAddr v \<and> \<not> flagRO v)"

fun valueInterface :: "heap \<Rightarrow> Value \<Rightarrow> panic + any" where
  "valueInterface h ZeroValue =
     Inl (Panic ''reflect: call of reflect.Value.Interface on zero Value'')"
| "valueInterface h (Value t s e st) =
     (case contents h st of
        None \<Rightarrow> Inl fault
      | Some v \<Rightarrow>
          if t = TInterface
          then (case v of VIface d \<Rightarrow> Inr d | _ \<Rightarrow> Inl fault)
          else Inr (Some (t, v)))"

definition Value_Interface :: "heap \<Rightarrow> Value \<Rightarrow> panic + any" where
  "Value_Interface h v =
     (if flagRO v
      then Inl (Panic
        ''reflect.Value.Interface: cannot return value obtained from unexported field or method'')
      else valueInterface h v)"

fun ValueOf :: "any \<Rightarrow> Value" where
  "ValueOf None = ZeroValue"
| "ValueOf (Some (t, v)) = Value t False False (Copy v)"

fun zero_val :: "Type \<Rightarrow> val" and zero_field :: "StructField \<Rightarrow> val" where
  "zero_val TBool = VBool False"
| "zero_val TInt = VInt 0"
| "zero_val TString = VString []"
| "zero_val (TPtr t) = VPtr None"
| "zero_val (TStruct n fs) = VStruct (map zero_field fs)"
| "zero_val TInterface = VIface None"
| "zero_field (StructField n p t tg a) = zero_val t"

definition Zero :: "Type \<Rightarrow> Value" where
  "Zero t = Value t False False (Copy (zero_val t))"

text \<open>
  \<^verbatim>\<open>directlyAssignable(T, V)\<close>: identical types, or identical underlying types where one
  of the two is not a defined type (among the kinds here that is a struct type and the
  unnamed struct type of the same fields). \<^verbatim>\<open>implements(T, V)\<close>: \<open>T\<close> is the empty
  interface, which every type implements. \<^verbatim>\<open>t.AssignableTo(u)\<close> is one or the other,
  with \<open>u\<close> as the target.
\<close>

definition directlyAssignable :: "Type \<Rightarrow> Type \<Rightarrow> bool" where
  "directlyAssignable T V =
     (T = V \<or>
      (case T of
         TStruct n fs \<Rightarrow>
           (case V of TStruct n' fs' \<Rightarrow> (n = [] \<or> n' = []) \<and> fs = fs' | _ \<Rightarrow> False)
       | _ \<Rightarrow> False))"

definition implements :: "Type \<Rightarrow> Type \<Rightarrow> bool" where
  "implements T V = (T = TInterface)"

definition AssignableTo :: "Type \<Rightarrow> Type \<Rightarrow> bool" where
  "AssignableTo t u = (directlyAssignable u t \<or> implements u t)"

text \<open>
  \<^verbatim>\<open>Value.Set\<close>: \<^verbatim>\<open>mustBeAssignable\<close> on the target, \<^verbatim>\<open>mustBeExported\<close> on the
  source, \<^verbatim>\<open>assignTo\<close> (which wraps the source when the target is an interface), then
  the write.
\<close>

fun Value_Set :: "heap \<Rightarrow> Value \<Rightarrow> Value \<Rightarrow> panic + heap" where
  "Value_Set h ZeroValue x = Inl (Panic ''reflect: call of reflect.Value.Set on zero Value'')"
| "Value_Set h (Value t s e (Copy c)) x =
     (if s \<or> e
      then Inl (Panic
        ''reflect: reflect.Value.Set using value obtained using unexported field'')
      else Inl (Panic ''reflect: reflect.Value.Set using unaddressable value''))"
| "Value_Set h (Value t s e (Addr l)) x =
     (if s \<or> e
      then Inl (Panic
        ''reflect: reflect.Value.Set using value obtained using unexported field'')
      else
        (case x of
           ZeroValue \<Rightarrow> Inl (Panic ''reflect: call of reflect.Value.Set on zero Value'')
         | Value xt xs xe xst \<Rightarrow>
             if xs \<or> xe
             then Inl (Panic
               ''reflect: reflect.Value.Set using value obtained using unexported field'')
             else
               (case contents h xst of
                  None \<Rightarrow> Inl fault
                | Some xv \<Rightarrow>
                    if directlyAssignable t xt
                    then (case store h l xv of None \<Rightarrow> Inl fault | Some h' \<Rightarrow> Inr h')
                    else if implements t xt
                    then (case store h l (VIface (Some (xt, xv))) of
                            None \<Rightarrow> Inl fault
                          | Some h' \<Rightarrow> Inr h')
                    else Inl (Panic
                      ''reflect.Set: value is not assignable to type''))))"

fun Value_Addr :: "Value \<Rightarrow> panic + Value" where
  "Value_Addr (Value t s e (Addr l)) = Inr (Value (TPtr t) s e (Copy (VPtr (Some l))))"
| "Value_Addr v = Inl (Panic ''reflect.Value.Addr of unaddressable value'')"

fun Value_Elem :: "heap \<Rightarrow> Value \<Rightarrow> panic + Value" where
  "Value_Elem h (Value (TPtr t) s e st) =
     (case contents h st of
        Some (VPtr None) \<Rightarrow> Inr ZeroValue
      | Some (VPtr (Some l)) \<Rightarrow> Inr (Value t s e (Addr l))
      | _ \<Rightarrow> Inl fault)"
| "Value_Elem h (Value TInterface s e st) =
     (case contents h st of
        Some (VIface None) \<Rightarrow> Inr ZeroValue
      | Some (VIface (Some (t, v))) \<Rightarrow> Inr (Value t (s \<or> e) False (Copy v))
      | _ \<Rightarrow> Inl fault)"
| "Value_Elem h v = Inl (Panic ''reflect: call of reflect.Value.Elem on non-pointer Value'')"

fun find_field :: "StructField list \<Rightarrow> string \<Rightarrow> nat \<Rightarrow> (StructField \<times> nat) option" where
  "find_field [] name i = None"
| "find_field (f # fs) name i =
     (if Name f = name then Some (f, i) else find_field fs name (Suc i))"

text \<open>\<^verbatim>\<open>Type.FieldByName\<close>: the field and its index, or not found.\<close>

fun Type_FieldByName :: "Type \<Rightarrow> string \<Rightarrow> panic + (StructField \<times> nat) option" where
  "Type_FieldByName (TStruct n fs) name = Inr (find_field fs name 0)"
| "Type_FieldByName t name = Inl (Panic ''reflect: FieldByName of non-struct type'')"

text \<open>
  \<^verbatim>\<open>Value.Field(i)\<close>: the field's Value keeps \<^verbatim>\<open>flagAddr\<close> and \<^verbatim>\<open>flagStickyRO\<close> of
  the struct, and becomes read-only when the field is not exported.
\<close>

fun field_storage :: "Storage \<Rightarrow> nat \<Rightarrow> Storage option" where
  "field_storage (Addr l) i = Some (Addr (fst l, snd l @ [i]))"
| "field_storage (Copy (VStruct vs)) i = (if i < length vs then Some (Copy (vs ! i)) else None)"
| "field_storage (Copy v) i = None"

definition Value_Field :: "Value \<Rightarrow> StructField \<Rightarrow> nat \<Rightarrow> panic + Value" where
  "Value_Field v f i =
     (case v of
        ZeroValue \<Rightarrow> Inl (Panic ''reflect: call of reflect.Value.Field on zero Value'')
      | Value t s e st \<Rightarrow>
          (case field_storage st i of
             None \<Rightarrow> Inl fault
           | Some st' \<Rightarrow>
               Inr (Value (Typ f)
                      (s \<or> (PkgPath f \<noteq> [] \<and> \<not> Anonymous f))
                      (PkgPath f \<noteq> [] \<and> Anonymous f)
                      st')))"

text \<open>\<^verbatim>\<open>Value.FieldByName\<close>: the zero Value when the name is not found.\<close>

definition Value_FieldByName :: "Value \<Rightarrow> string \<Rightarrow> panic + Value" where
  "Value_FieldByName v name =
     (case v of
        Value (TStruct n fs) s e st \<Rightarrow>
          (case find_field fs name 0 of
             None \<Rightarrow> Inr ZeroValue
           | Some (f, i) \<Rightarrow> Value_Field v f i)
      | _ \<Rightarrow> Inl (Panic ''reflect: call of reflect.Value.FieldByName on non-struct Value''))"

text \<open>\<^verbatim>\<open>StructTag.Get\<close>: the value under the key, or the empty string.\<close>

definition Tag_Get :: "(string \<times> string) list \<Rightarrow> string \<Rightarrow> string" where
  "Tag_Get tag key = (case map_of tag key of None \<Rightarrow> [] | Some v \<Rightarrow> v)"

text \<open>
  \<^verbatim>\<open>reflect.DeepEqual\<close>. Go remembers the pairs of references it has visited so as to
  stop on cyclic data; here the number of pointer pairs followed is bounded by a fuel
  argument, and \<open>None\<close> means that the fuel did not suffice. Pointers are equal when
  they are the same pointer, and otherwise when their targets are deeply equal; a nil
  pointer equals only a nil pointer; interface values need the same dynamic type.
\<close>

fun deepValueEqual :: "nat \<Rightarrow> heap \<Rightarrow> val \<Rightarrow> val \<Rightarrow> bool option"
and deepFieldsEqual :: "nat \<Rightarrow> heap \<Rightarrow> val list \<Rightarrow> val list \<Rightarrow> bool option" where
  "deepValueEqual n h (VBool a) y = (case y of VBool b \<Rightarrow> Some (a = b) | _ \<Rightarrow> Some False)"
| "deepValueEqual n h (VInt a) y = (case y of VInt b \<Rightarrow> Some (a = b) | _ \<Rightarrow> Some False)"
| "deepValueEqual n h (VString a) y =
     (case y of VString b \<Rightarrow> Some (a = b) | _ \<Rightarrow> Some False)"
| "deepValueEqual n h (VIface None) y =
     (case y of VIface d \<Rightarrow> Some (d = None) | _ \<Rightarrow> Some False)"
| "deepValueEqual n h (VIface (Some (t, a))) y =
     (case y of
        VIface None \<Rightarrow> Some False
      | VIface (Some (u, b)) \<Rightarrow> if t \<noteq> u then Some False else deepValueEqual n h a b
      | _ \<Rightarrow> Some False)"
| "deepValueEqual n h (VStruct xs) y =
     (case y of VStruct ys \<Rightarrow> deepFieldsEqual n h xs ys | _ \<Rightarrow> Some False)"
| "deepValueEqual n h (VPtr None) y =
     (case y of VPtr q \<Rightarrow> Some (q = None) | _ \<Rightarrow> Some False)"
| "deepValueEqual 0 h (VPtr (Some l)) y =
     (case y of
        VPtr None \<Rightarrow> Some False
      | VPtr (Some m) \<Rightarrow> if l = m then Some True else None
      | _ \<Rightarrow> Some False)"
| "deepValueEqual (Suc n) h (VPtr (Some l)) y =
     (case y of
        VPtr None \<Rightarrow> Some False
      | VPtr (Some m) \<Rightarrow>
          if l = m then Some True
          else (case load h l of
                  None \<Rightarrow> None
                | Some a \<Rightarrow>
                    (case load h m of None \<Rightarrow> None | Some b \<Rightarrow> deepValueEqual n h a b))
      | _ \<Rightarrow> Some False)"
| "deepFieldsEqual n h [] ys = Some (ys = [])"
| "deepFieldsEqual n h (x # xs) ys =
     (case ys of
        [] \<Rightarrow> Some False
      | y # ys' \<Rightarrow>
          (case deepValueEqual n h x y of
             None \<Rightarrow> None
           | Some False \<Rightarrow> Some False
           | Some True \<Rightarrow> deepFieldsEqual n h xs ys'))"

definition DeepEqual :: "nat \<Rightarrow> heap \<Rightarrow> any \<Rightarrow> any \<Rightarrow> bool option" where
  "DeepEqual n h x y =
     (case x of
        None \<Rightarrow> Some (y = None)
      | Some (t, a) \<Rightarrow>
          (case y of
             None \<Rightarrow> Some False
           | Some (u, b) \<Rightarrow> if t \<noteq> u then Some False else deepValueEqual n h a b))"

section \<open>field.go\<close>

datatype error = errNotExported | errNotSettable | errCantAssign Type Type

text \<open>
  The struct \<^verbatim>\<open>Field\<close>. Its members \<^verbatim>\<open>value\<close> and \<^verbatim>\<open>field\<close> carry a suffix here,
  the plain names being taken.
\<close>

record Field =
  value_f :: Value
  field_f :: StructField
  defaultTag :: string

definition Field_Tag :: "Field \<Rightarrow> string \<Rightarrow> string" where
  "Field_Tag f key = Tag_Get (Tag (field_f f)) key"

definition Field_Value :: "Field \<Rightarrow> heap \<Rightarrow> panic + any" where
  "Field_Value f h = Value_Interface h (value_f f)"

definition Field_IsEmbedded :: "Field \<Rightarrow> bool" where
  "Field_IsEmbedded f = Anonymous (field_f f)"

definition Field_IsExported :: "Field \<Rightarrow> bool" where
  "Field_IsExported f = (PkgPath (field_f f) = [])"

text \<open>\<open>None\<close>: the comparison ran out of fuel.\<close>

definition Field_IsZero :: "nat \<Rightarrow> Field \<Rightarrow> heap \<Rightarrow> (panic + bool) option" where
  "Field_IsZero n f h =
     (case Value_Type (value_f f) of
        Inl p \<Rightarrow> Some (Inl p)
      | Inr t \<Rightarrow>
          (case Value_Interface h (Zero t) of
             Inl p \<Rightarrow> Some (Inl p)
           | Inr zero \<Rightarrow>
               (case Field_Value f h of
                  Inl p \<Rightarrow> Some (Inl p)
                | Inr current \<Rightarrow> map_option Inr (DeepEqual n h current zero))))"

definition Field_Name :: "Field \<Rightarrow> string" where
  "Field_Name f = Name (field_f f)"

definition Field_Kind :: "Field \<Rightarrow> Kind" where
  "Field_Kind f = Value_Kind (value_f f)"

text \<open>
  \<^verbatim>\<open>Set\<close> returns the error (\<open>None\<close> for nil) and the storage after the call, or
  panics.
\<close>

definition Field_Set :: "Field \<Rightarrow> any \<Rightarrow> heap \<Rightarrow> panic + (error option \<times> heap)" where
  "Field_Set f val h =
     (if \<not> Field_IsExported f then Inr (Some errNotExported, h)
      else if \<not> Value_CanSet (value_f f) then Inr (Some errNotSettable, h)
      else
        (case Value_Type (ValueOf val) of
           Inl p \<Rightarrow> Inl p
         | Inr vt \<Rightarrow>
             (case Value_Type (value_f f) of
                Inl p \<Rightarrow> Inl p
              | Inr ft \<Rightarrow>
                  if \<not> AssignableTo vt ft then Inr (Some (errCantAssign vt ft), h)
                  else
                    (case Value_Set h (value_f f) (ValueOf val) of
                       Inl p \<Rightarrow> Inl p
                     | Inr h' \<Rightarrow> Inr (None, h')))))"

definition Field_Zero :: "Field \<Rightarrow> heap \<Rightarrow> panic + (error option \<times> heap)" where
  "Field_Zero f h =
     (case Value_Type (value_f f) of
        Inl p \<Rightarrow> Inl p
      | Inr t \<Rightarrow>
          (case Value_Interface h (Zero t) of
             Inl p \<Rightarrow> Inl p
           | Inr zero \<Rightarrow> Field_Set f zero h))"

text \<open>
  Modelled from the spec: \<^verbatim>\<open>structVal\<close> is called by \<^verbatim>\<open>Field\<close> and is not in
  \<^verbatim>\<open>field.go\<close>. The spec has the value be a structured record or a reference to one,
  anything else being a contract violation that panics.
\<close>

definition structVal :: "heap \<Rightarrow> any \<Rightarrow> panic + Value" where
  "structVal h s =
     (case (if Value_Kind (ValueOf s) = KPtr then Value_Elem h (ValueOf s)
            else Inr (ValueOf s)) of
        Inl p \<Rightarrow> Inl p
      | Inr v \<Rightarrow> if Value_Kind v \<noteq> KStruct then Inl (Panic ''not struct'') else Inr v)"

text \<open>
  Modelled from the spec: \<^verbatim>\<open>getFields\<close> is called by \<^verbatim>\<open>Fields\<close> and is not in
  \<^verbatim>\<open>field.go\<close>. The spec has it enumerate the immediate fields of the record (or of
  the record referred to) in declared order, skip a field whose tag value under the
  given key is exactly \<^verbatim>\<open>-\<close>, and wrap each other field as a descriptor that inherits
  the key; a value that is not a record is a contract violation that panics.
\<close>

fun wrapFields :: "Value \<Rightarrow> string \<Rightarrow> StructField list \<Rightarrow> panic + Field list" where
  "wrapFields v tagName [] = Inr []"
| "wrapFields v tagName (sf # sfs) =
     (if Tag_Get (Tag sf) tagName = ''-'' then wrapFields v tagName sfs
      else
        (case Value_FieldByName v (Name sf) of
           Inl p \<Rightarrow> Inl p
         | Inr fv \<Rightarrow>
             (case wrapFields v tagName sfs of
                Inl p \<Rightarrow> Inl p
              | Inr fs \<Rightarrow>
                  Inr (\<lparr>value_f = fv, field_f = sf, defaultTag = tagName\<rparr> # fs))))"

definition getFields :: "heap \<Rightarrow> Value \<Rightarrow> string \<Rightarrow> panic + Field list" where
  "getFields h v tagName =
     (case (if Value_Kind v = KPtr then Value_Elem h v else Inr v) of
        Inl p \<Rightarrow> Inl p
      | Inr w \<Rightarrow>
          (case w of
             Value (TStruct n sfs) s e st \<Rightarrow> wrapFields w tagName sfs
           | _ \<Rightarrow> Inl (Panic ''not struct'')))"

definition Field_Fields :: "Field \<Rightarrow> heap \<Rightarrow> panic + Field list" where
  "Field_Fields f h = getFields h (value_f f) (defaultTag f)"

text \<open>\<^verbatim>\<open>Field\<close> returns the descriptor, \<open>None\<close> for nil (not found), or panics.\<close>

definition Field_Field :: "Field \<Rightarrow> string \<Rightarrow> heap \<Rightarrow> panic + Field option" where
  "Field_Field f name h =
     (case (if Value_Kind (value_f f) \<noteq> KPtr then Value_Addr (value_f f)
            else Inr (value_f f)) of
        Inl p \<Rightarrow> Inl p
      | Inr value \<Rightarrow>
          (case Value_Interface h value of
             Inl p \<Rightarrow> Inl p
           | Inr s \<Rightarrow>
               (case structVal h s of
                  Inl p \<Rightarrow> Inl p
                | Inr v \<Rightarrow>
                    (case Value_Type v of
                       Inl p \<Rightarrow> Inl p
                     | Inr t \<Rightarrow>
                         (case Type_FieldByName t name of
                            Inl p \<Rightarrow> Inl p
                          | Inr None \<Rightarrow> Inr None
                          | Inr (Some (field, i)) \<Rightarrow>
                              (case Value_FieldByName v name of
                                 Inl p \<Rightarrow> Inl p
                               | Inr fv \<Rightarrow>
                                   Inr (Some \<lparr>value_f = fv, field_f = field,
                                              defaultTag = []\<rparr>)))))))"

section \<open>Auxiliary notions and example data\<close>

text \<open>
  The structured record that a descriptor's value denotes, with the place where it is
  stored: the value itself when it is an addressable struct, or the target of the
  pointer when it is a non-nil pointer to a struct.
\<close>

fun record_of :: "heap \<Rightarrow> Value \<Rightarrow> (StructField list \<times> loc) option" where
  "record_of h (Value (TStruct n sfs) s e (Addr l)) = Some (sfs, l)"
| "record_of h (Value (TPtr (TStruct n sfs)) s e st) =
     (case contents h st of Some (VPtr (Some m)) \<Rightarrow> Some (sfs, m) | _ \<Rightarrow> None)"
| "record_of h v = None"

text \<open>
  The fields of the record that a descriptor's value denotes, wherever it is held: an
  addressable struct, a copy of a struct (with a value for each field), or the target
  of a non-nil pointer to a struct.
\<close>

fun fields_of :: "heap \<Rightarrow> Value \<Rightarrow> StructField list option" where
  "fields_of h (Value (TStruct n sfs) s e (Addr l)) = Some sfs"
| "fields_of h (Value (TStruct n sfs) s e (Copy (VStruct vs))) =
     (if length vs = length sfs then Some sfs else None)"
| "fields_of h (Value (TPtr (TStruct n sfs)) s e st) =
     (case contents h st of Some (VPtr (Some m)) \<Rightarrow> Some sfs | _ \<Rightarrow> None)"
| "fields_of h v = None"

text \<open>
  The descriptor that \<^verbatim>\<open>Field\<close> builds for field \<open>i\<close> of the record stored at \<open>m\<close>:
  the composite literal of the source, with the Value that reflect hands out for a field
  of an addressable, readable struct.
\<close>

definition fieldAt :: "loc \<Rightarrow> StructField \<Rightarrow> nat \<Rightarrow> Field" where
  "fieldAt m sf i =
     \<lparr>value_f = Value (Typ sf) (PkgPath sf \<noteq> [] \<and> \<not> Anonymous sf)
                   (PkgPath sf \<noteq> [] \<and> Anonymous sf) (Addr (fst m, snd m @ [i])),
      field_f = sf, defaultTag = []\<rparr>"

text \<open>
  Example data: the record of the spec's example, nested in an outer record, and the
  descriptors of the outer record's fields under the tag key \<^verbatim>\<open>structs\<close>.
  \<^verbatim>\<open>
  type Person struct { Name string; Age int `structs:"-"` }
  type Outer  struct { Who Person; Any interface{}; hidden Person }
  \<close>
\<close>

definition Person :: Type where
  "Person = TStruct ''Person''
     [StructField ''Name'' [] TString [] False,
      StructField ''Age'' [] TInt [(''structs'', ''-'')] False]"

definition Outer :: Type where
  "Outer = TStruct ''Outer''
     [StructField ''Who'' [] Person [] False,
      StructField ''Any'' [] TInterface [] False,
      StructField ''hidden'' ''main'' Person [] False]"

definition ann :: val where
  "ann = VStruct [VString ''Ann'', VInt 30]"

definition h0 :: heap where
  "h0 = Map.empty(0 \<mapsto> VStruct [ann, VIface (Some (TInt, VInt 5)), ann])"

definition fWho :: Field where
  "fWho = \<lparr>value_f = Value Person False False (Addr (0, [0])),
           field_f = StructField ''Who'' [] Person [] False, defaultTag = ''structs''\<rparr>"

definition fAny :: Field where
  "fAny = \<lparr>value_f = Value TInterface False False (Addr (0, [1])),
           field_f = StructField ''Any'' [] TInterface [] False, defaultTag = ''structs''\<rparr>"

definition fHidden :: Field where
  "fHidden = \<lparr>value_f = Value Person True False (Addr (0, [2])),
              field_f = StructField ''hidden'' ''main'' Person [] False,
              defaultTag = ''structs''\<rparr>"

text \<open>The descriptor of \<^verbatim>\<open>Who\<close> when the outer record was handed over by value.\<close>

definition fCopy :: Field where
  "fCopy = \<lparr>value_f = Value Person False False (Copy ann),
            field_f = StructField ''Who'' [] Person [] False, defaultTag = ''structs''\<rparr>"

definition fName :: Field where
  "fName = \<lparr>value_f = Value TString False False (Addr (0, [0, 0])),
            field_f = StructField ''Name'' [] TString [] False, defaultTag = []\<rparr>"

text \<open>
  A third level, for a lookup within a lookup: the descriptor of \<^verbatim>\<open>Lead\<close> in
  \<^verbatim>\<open>type Team struct { Lead Outer }\<close>, and a team in storage.
\<close>

definition h1 :: heap where
  "h1 = Map.empty(0 \<mapsto> VStruct [VStruct [ann, VIface None, ann]])"

definition fLead :: Field where
  "fLead = \<lparr>value_f = Value Outer False False (Addr (0, [0])),
            field_f = StructField ''Lead'' [] Outer [] False, defaultTag = ''structs''\<rparr>"



section \<open>Storage lemmas\<close>

lemma get_set_path: "set_path v p x = Some w \<Longrightarrow> get_path w p = Some x"
proof (induction p arbitrary: v w)
  case Nil
  then show ?case by simp
next
  case (Cons i p)
  then show ?case
    by (auto split: val.splits if_splits option.splits)
qed

lemma load_store: "store h l x = Some h' \<Longrightarrow> load h' l = Some x"
  by (auto simp: store_def load_def get_set_path split: option.splits)

lemma set_path_field:
  "get_path v p = Some (VStruct vs) \<Longrightarrow> i < length vs \<Longrightarrow>
   \<exists>w. set_path v (p @ [i]) x = Some w \<and> get_path w p = Some (VStruct (vs[i := x]))"
proof (induction p arbitrary: v)
  case Nil
  then show ?case by simp
next
  case (Cons j p)
  from Cons.prems(1) obtain us where v: "v = VStruct us" and j: "j < length us"
    and g: "get_path (us ! j) p = Some (VStruct vs)"
    by (auto split: val.splits if_splits)
  from Cons.IH[OF g Cons.prems(2)] obtain w where
    w: "set_path (us ! j) (p @ [i]) x = Some w" "get_path w p = Some (VStruct (vs[i := x]))"
    by blast
  then show ?case using v j by simp
qed

text \<open>Writing field \<open>i\<close> of the record stored at \<open>m\<close> shows when the record is read.\<close>

lemma store_field:
  assumes "load h m = Some (VStruct vs)" and "i < length vs"
  shows "\<exists>h'. store h (fst m, snd m @ [i]) x = Some h' \<and>
              load h' m = Some (VStruct (vs[i := x]))"
proof -
  from assms(1) obtain v where hv: "h (fst m) = Some v"
    and g: "get_path v (snd m) = Some (VStruct vs)"
    by (auto simp: load_def split: option.splits)
  from set_path_field[OF g assms(2), of x] obtain w where
    "set_path v (snd m @ [i]) x = Some w" "get_path w (snd m) = Some (VStruct (vs[i := x]))"
    by blast
  with hv show ?thesis by (simp add: store_def load_def)
qed

section \<open>Set, Zero and Value\<close>

text \<open>
  The checks of \<^verbatim>\<open>Set\<close> for a value that has a dynamic type, in the order of the
  source: exportedness, settability, assignability, then the write.
\<close>

lemma Field_Set_Some:
  "Field_Set f (Some (t, v)) h =
     (if \<not> Field_IsExported f then Inr (Some errNotExported, h)
      else if \<not> Value_CanSet (value_f f) then Inr (Some errNotSettable, h)
      else
        (case value_f f of
           Value ft s e (Addr l) \<Rightarrow>
             if \<not> AssignableTo t ft then Inr (Some (errCantAssign t ft), h)
             else
               (case store h l (if directlyAssignable ft t then v else VIface (Some (t, v))) of
                  None \<Rightarrow> Inl fault
                | Some h' \<Rightarrow> Inr (None, h'))
         | _ \<Rightarrow> Inl fault))"
  by (cases "value_f f" rule: Value_CanAddr.cases)
     (auto simp: Field_Set_def Value_CanSet_def AssignableTo_def directlyAssignable_def implements_def split: option.splits)

lemma Set_error_unchanged: "Field_Set f val h = Inr (Some e, h') \<Longrightarrow> h' = h"
proof (cases val)
  case None
  then show "Field_Set f val h = Inr (Some e, h') \<Longrightarrow> h' = h"
    by (simp add: Field_Set_def split: if_splits)
next
  case (Some a)
  then show "Field_Set f val h = Inr (Some e, h') \<Longrightarrow> h' = h"
    by (cases a)
       (auto simp: Field_Set_Some split: if_splits Value.splits Storage.splits option.splits)
qed

lemma Set_success:
  assumes "Field_Set f (Some (t, v)) h = Inr (None, h')"
  shows "\<exists>ft l. value_f f = Value ft False False (Addr l) \<and> Field_IsExported f \<and>
           AssignableTo t ft \<and>
           load h' l = Some (if directlyAssignable ft t then v else VIface (Some (t, v)))"
proof -
  from assms have ex: "Field_IsExported f" and cs: "Value_CanSet (value_f f)"
    by (auto simp: Field_Set_Some split: if_splits)
  from cs obtain ft l where vf: "value_f f = Value ft False False (Addr l)"
    by (cases "value_f f" rule: Value_CanAddr.cases) (auto simp: Value_CanSet_def)
  from assms ex cs vf have as: "AssignableTo t ft"
    and st: "store h l (if directlyAssignable ft t then v else VIface (Some (t, v))) = Some h'"
    by (auto simp: Field_Set_Some split: if_splits option.splits)
  from load_store[OF st] vf ex as show ?thesis by blast
qed

text \<open>
  C1. \<^verbatim>\<open>Set\<close> is claimed to end, for every new value, in exactly one of NotExported,
  NotSettable, TypeMismatch or the write. For the nil interface value on an exported,
  settable field it ends in none of them: \<^verbatim>\<open>reflect.ValueOf(nil)\<close> is the zero Value
  and \<^verbatim>\<open>value.Type()\<close> panics. (For a value with a dynamic type the order of the
  checks is as claimed, see \<open>Field_Set_Some\<close>.)
\<close>

theorem Set_nil_on_settable_field:
  "Field_IsExported fWho \<and> Value_CanSet (value_f fWho) \<and>
   Field_Set fWho None h0 = Inl (Panic ''reflect: call of reflect.Value.Type on zero Value'')"
  by (simp add: Field_Set_def Field_IsExported_def fWho_def Value_CanSet_def)







text \<open>
  C5. Whenever \<^verbatim>\<open>Set\<close> or \<^verbatim>\<open>Zero\<close> returns an error (NotExported, NotSettable or the
  type mismatch), the storage after the call is the storage before it.
\<close>

theorem Set_failure_leaves_storage:
  "(Field_Set f val h = Inr (Some e, h') \<longrightarrow> h' = h) \<and>
   (Field_Zero f h = Inr (Some e, h') \<longrightarrow> h' = h)"
  by (auto simp: Field_Zero_def dest: Set_error_unchanged split: sum.splits)

text \<open>
  C5, at the example: an int offered to the string field \<^verbatim>\<open>Name\<close>, and \<^verbatim>\<open>Zero\<close> on
  the unexported field.
\<close>

theorem Set_failure_leaves_storage_witness:
  "Field_Set fName (Some (TInt, VInt 1)) h0 = Inr (Some (errCantAssign TInt TString), h0) \<and>
   Field_Zero fHidden h0 = Inr (Some errNotExported, h0)"
  using Set_failure_leaves_storage[of fName "Some (TInt, VInt 1)" h0
      "errCantAssign TInt TString" h0]
    Set_failure_leaves_storage[of fHidden None h0 errNotExported h0]
  by (simp add: Field_Set_Some Field_Zero_def Field_Set_def Field_IsExported_def fName_def
      fHidden_def Value_CanSet_def AssignableTo_def directlyAssignable_def implements_def Value_Interface_def Zero_def)

text \<open>
  C9, as stated, has \<^verbatim>\<open>Set(nil)\<close> panic on every descriptor. On the unexported field
  the first check returns NotExported, and nothing panics.
\<close>

theorem Set_nil_unexported_returns_error:
  "Field_Set fHidden None h0 = Inr (Some errNotExported, h0)"
  by (simp add: Field_Set_def Field_IsExported_def fHidden_def)

text \<open>
  C9, amended. On every descriptor that is exported and settable, \<^verbatim>\<open>Set(nil)\<close> panics
  when the assignability check asks the zero Value for its type; on a descriptor that
  is not exported the first check returns NotExported, and on one that is exported but
  not settable the second check returns NotSettable, the storage staying as it was.
\<close>

theorem Set_nil_by_cases:
  "(\<not> Field_IsExported f \<longrightarrow> Field_Set f None h = Inr (Some errNotExported, h)) \<and>
   (Field_IsExported f \<and> \<not> Value_CanSet (value_f f) \<longrightarrow>
      Field_Set f None h = Inr (Some errNotSettable, h)) \<and>
   (Field_IsExported f \<and> Value_CanSet (value_f f) \<longrightarrow>
      Field_Set f None h = Inl (Panic ''reflect: call of reflect.Value.Type on zero Value''))"
  by (simp add: Field_Set_def)

text \<open>
  C9, amended, at the example: the unexported field, the exported field over a copy,
  and the settable field \<^verbatim>\<open>Name\<close>.
\<close>

theorem Set_nil_by_cases_witness:
  "\<not> Field_IsExported fHidden \<and> Field_Set fHidden None h0 = Inr (Some errNotExported, h0) \<and>
   Field_IsExported fCopy \<and> \<not> Value_CanSet (value_f fCopy) \<and>
   Field_Set fCopy None h0 = Inr (Some errNotSettable, h0) \<and>
   Field_IsExported fName \<and> Value_CanSet (value_f fName) \<and>
   Field_Set fName None h0 = Inl (Panic ''reflect: call of reflect.Value.Type on zero Value'')"
proof -
  have 1: "\<not> Field_IsExported fHidden" by (simp add: Field_IsExported_def fHidden_def)
  have 2: "Field_IsExported fCopy" "\<not> Value_CanSet (value_f fCopy)"
    by (simp_all add: Field_IsExported_def fCopy_def Value_CanSet_def)
  have 3: "Field_IsExported fName" "Value_CanSet (value_f fName)"
    by (simp_all add: Field_IsExported_def fName_def Value_CanSet_def)
  from Set_nil_by_cases[of fHidden h0] Set_nil_by_cases[of fCopy h0]
    Set_nil_by_cases[of fName h0] 1 2 3
  show ?thesis by simp
qed

section \<open>IsZero\<close>

lemma deepValueEqual_ptr_other:
  "\<forall>q. y \<noteq> VPtr q \<Longrightarrow> deepValueEqual n h (VPtr p) y = Some False"
  by (cases p; cases n; cases y) auto

lemma deepValueEqual_iface_other:
  "\<forall>d. y \<noteq> VIface d \<Longrightarrow> deepValueEqual n h (VIface c) y = Some False"
  by (cases c; cases y) auto

lemma deepValueEqual_ptr_nil: "deepValueEqual n h (VPtr p) (VPtr None) = Some (p = None)"
  by (cases p; cases n) simp_all

lemma deepValueEqual_iface_nil: "deepValueEqual n h (VIface c) (VIface None) = Some (c = None)"
  by (cases c) auto

lemma deepFieldsEqual_zero:
  "(\<And>sf v. sf \<in> set fs \<Longrightarrow> deepValueEqual n h v (zero_field sf) = Some (v = zero_field sf))
   \<Longrightarrow> deepFieldsEqual n h xs (map zero_field fs) = Some (xs = map zero_field fs)"
proof (induction xs arbitrary: fs)
  case Nil
  then show ?case by auto
next
  case (Cons x xs)
  show ?case
  proof (cases fs)
    case Nil
    then show ?thesis by simp
  next
    case (Cons sf fs')
    have 1: "deepValueEqual n h x (zero_field sf) = Some (x = zero_field sf)"
      using Cons.prems Cons by simp
    have 2: "deepFieldsEqual n h xs (map zero_field fs') = Some (xs = map zero_field fs')"
      using Cons.IH[of fs'] Cons.prems Cons by simp
    show ?thesis using 1 2 Cons by (simp split: bool.splits)
  qed
qed

text \<open>
  Against a zero value the comparison never follows a pointer, so it answers for every
  fuel, and its answer is equality with the zero value.
\<close>

lemma deepValueEqual_zero:
  "deepValueEqual n h v (zero_val t) = Some (v = zero_val t)"
  and "deepValueEqual n h v (zero_field sf) = Some (v = zero_field sf)"
proof (induction t and sf arbitrary: v and v rule: zero_val_zero_field.induct)
  case 1
  show ?case by (cases v) (simp_all add: deepValueEqual_ptr_other deepValueEqual_iface_other)
next
  case 2
  show ?case by (cases v) (simp_all add: deepValueEqual_ptr_other deepValueEqual_iface_other)
next
  case 3
  show ?case by (cases v) (simp_all add: deepValueEqual_ptr_other deepValueEqual_iface_other)
next
  case (4 t)
  show ?case
    by (cases v) (simp_all add: deepValueEqual_ptr_nil deepValueEqual_iface_other)
next
  case (5 nm fs)
  show ?case
  proof (cases v)
    case (VStruct xs)
    then show ?thesis using deepFieldsEqual_zero[of fs n h xs] 5 by simp
  qed (simp_all add: deepValueEqual_ptr_other deepValueEqual_iface_other)
next
  case 6
  show ?case
    by (cases v) (simp_all add: deepValueEqual_iface_nil deepValueEqual_ptr_other)
next
  case (7 na p t tg a)
  then show ?case by simp
qed

lemma Interface_Zero:
  "Value_Interface h (Zero t) = Inr (if t = TInterface then None else Some (t, zero_val t))"
  by (simp add: Value_Interface_def Zero_def)

lemma DeepEqual_zero:
  "DeepEqual n h cur (if t = TInterface then None else Some (t, zero_val t))
     = Some (cur = (if t = TInterface then None else Some (t, zero_val t)))"
  by (auto simp: DeepEqual_def deepValueEqual_zero split: option.splits)



section \<open>Zero\<close>

text \<open>
  On a field of any type but the interface type, \<^verbatim>\<open>Zero\<close> is \<^verbatim>\<open>Set\<close> with the zero
  value: it fails with NotExported, then NotSettable, and otherwise writes.
\<close>

lemma Field_Zero_cases:
  assumes "value_f f = Value t s e st" and "t \<noteq> TInterface"
  shows "Field_Zero f h =
     (if \<not> Field_IsExported f then Inr (Some errNotExported, h)
      else if \<not> Value_CanSet (value_f f) then Inr (Some errNotSettable, h)
      else
        (case st of
           Addr l \<Rightarrow>
             (case store h l (zero_val t) of
                None \<Rightarrow> Inl fault
              | Some h' \<Rightarrow> Inr (None, h'))
         | Copy c \<Rightarrow> Inl fault))"
  using assms
  by (cases st)
     (simp_all add: Field_Zero_def Interface_Zero Field_Set_Some AssignableTo_def directlyAssignable_def implements_def
        Value_CanSet_def)

text \<open>Whenever \<^verbatim>\<open>Zero\<close> succeeds, \<^verbatim>\<open>IsZero\<close> is true afterwards.\<close>

lemma Zero_success_IsZero:
  assumes "Field_Zero f h = Inr (None, h')"
  shows "Field_IsZero n f h' = Some (Inr True)"
proof -
  from assms obtain t where t: "Value_Type (value_f f) = Inr t"
    and s: "Field_Set f (if t = TInterface then None else Some (t, zero_val t)) h = Inr (None, h')"
    by (auto simp: Field_Zero_def Interface_Zero split: sum.splits)
  have nt: "t \<noteq> TInterface"
  proof
    assume "t = TInterface"
    with s show False by (simp add: Field_Set_def split: if_splits)
  qed
  with s have "Field_Set f (Some (t, zero_val t)) h = Inr (None, h')" by simp
  from Set_success[OF this] t nt obtain l where
    "value_f f = Value t False False (Addr l)" "load h' l = Some (zero_val t)"
    by (auto simp: directlyAssignable_def)
  with nt have "Field_Value f h' = Inr (Some (t, zero_val t))"
    by (simp add: Field_Value_def Value_Interface_def)
  with t nt DeepEqual_zero[of n h' "Some (t, zero_val t)" t] show ?thesis
    by (simp add: Field_IsZero_def Interface_Zero)
qed

text \<open>
  C4. \<^verbatim>\<open>Zero\<close> is claimed to succeed exactly when the field is exported and
  settable. On an exported, settable field of interface type it panics: the zero value
  of the type is the nil interface value, and \<^verbatim>\<open>Set\<close> panics on it at \<^verbatim>\<open>value.Type()\<close>.
  (On the other types \<^verbatim>\<open>Zero\<close> is as claimed, see \<open>Field_Zero_cases\<close> and
  \<open>Zero_success_IsZero\<close>.)
\<close>

theorem Zero_on_interface_field:
  "Field_IsExported fAny \<and> Value_CanSet (value_f fAny) \<and>
   Field_Zero fAny h0 = Inl (Panic ''reflect: call of reflect.Value.Type on zero Value'')"
  by (simp add: Field_Zero_def Field_Set_def Field_IsExported_def fAny_def Value_CanSet_def
      Value_Interface_def Zero_def)

section \<open>Field\<close>

text \<open>
  C10. On a descriptor whose value is a struct (not a pointer) held in a handle that is
  not addressable, \<^verbatim>\<open>Field(name)\<close> panics for every name, at \<^verbatim>\<open>f.value.Addr()\<close>.
\<close>

theorem Field_on_detached_struct_panics:
  assumes "Value_Kind (value_f f) = KStruct" and "\<not> Value_CanAddr (value_f f)"
  shows "Field_Field f name h = Inl (Panic ''reflect.Value.Addr of unaddressable value'')"
  using assms
  by (cases "value_f f" rule: Value_CanAddr.cases) (auto simp: Field_Field_def)

text \<open>C10, at the example: the descriptor of \<^verbatim>\<open>Who\<close> over a copy of the record.\<close>

theorem Field_on_detached_struct_panics_witness:
  "Value_Kind (value_f fCopy) = KStruct \<and> \<not> Value_CanAddr (value_f fCopy) \<and>
   Field_Field fCopy ''Name'' h0 = Inl (Panic ''reflect.Value.Addr of unaddressable value'')"
proof -
  have k: "Value_Kind (value_f fCopy) = KStruct" and a: "\<not> Value_CanAddr (value_f fCopy)"
    by (simp_all add: fCopy_def Person_def)
  from Field_on_detached_struct_panics[OF k a] k a show ?thesis by simp
qed

lemma find_field_Name: "find_field sfs name k = Some (sf, i) \<Longrightarrow> Name sf = name"
  by (induction sfs arbitrary: k) (auto split: if_splits)

lemma find_field_mem: "find_field sfs name k = Some (sf, i) \<Longrightarrow> sf \<in> set sfs"
  by (induction sfs arbitrary: k) (auto split: if_splits)

lemma find_field_found: "sf \<in> set sfs \<Longrightarrow> find_field sfs (Name sf) k \<noteq> None"
  by (induction sfs arbitrary: k) auto

text \<open>
  \<^verbatim>\<open>Field\<close> on a readable descriptor that denotes a record: the address is taken (or
  the pointer is used), the interface value is a pointer to the record, and the field's
  Value is cut out of the record where it is stored.
\<close>

lemma Field_Field_record:
  assumes "\<not> flagRO (value_f f)" and "record_of h (value_f f) = Some (sfs, m)"
  shows "Field_Field f name h =
           Inr (case find_field sfs name 0 of
                  None \<Rightarrow> None
                | Some (sf, i) \<Rightarrow> Some (fieldAt m sf i))"
  using assms
  by (cases "(h, value_f f)" rule: record_of.cases)
     (auto simp: Field_Field_def Value_Interface_def structVal_def Value_FieldByName_def
        Value_Field_def fieldAt_def
        split: option.splits val.splits)

text \<open>
  C2, as stated, has \<^verbatim>\<open>Field(name)\<close> return a descriptor for every parent whose handle
  is addressable. The unexported field \<^verbatim>\<open>hidden\<close> has an addressable handle and denotes
  a record with a field \<^verbatim>\<open>Name\<close>, and \<^verbatim>\<open>Field\<close> on it panics at
  \<^verbatim>\<open>value.Interface()\<close>: reflect does not hand out a value reached through an
  unexported field.
\<close>

theorem Field_on_unexported_parent_panics:
  "Value_CanAddr (value_f fHidden) \<and>
   record_of h0 (value_f fHidden) =
     Some ([StructField ''Name'' [] TString [] False,
            StructField ''Age'' [] TInt [(''structs'', ''-'')] False], (0, [2])) \<and>
   Field_Field fHidden ''Name'' h0 =
     Inl (Panic
      ''reflect.Value.Interface: cannot return value obtained from unexported field or method'')"
  by (simp add: fHidden_def Person_def Field_Field_def Value_Interface_def)

text \<open>
  C2, amended. For every parent descriptor whose handle is addressable and readable (not
  reached through an unexported field), and every name of an immediate field of the
  record it denotes, \<^verbatim>\<open>Field(name)\<close> returns a descriptor whose handle is addressable,
  at the field's place in the original record. The handle is settable exactly when the
  named field is exported, and then \<^verbatim>\<open>Set\<close> with an assignable value succeeds and the
  record, read from the original storage, holds the new value in that field. The
  returned descriptor meets the same conditions again when its field is exported, so
  the same holds for a lookup on it.
\<close>

theorem Field_keeps_original_storage:
  assumes "Value_CanAddr (value_f f)" and "\<not> flagRO (value_f f)"
    and "record_of h (value_f f) = Some (sfs, m)"
    and "find_field sfs name 0 = Some (sf, i)"
  shows "Field_Field f name h = Inr (Some (fieldAt m sf i)) \<and>
         Value_CanAddr (value_f (fieldAt m sf i)) \<and>
         Value_CanSet (value_f (fieldAt m sf i)) = Field_IsExported (fieldAt m sf i) \<and>
         (Field_IsExported (fieldAt m sf i) \<and> AssignableTo t (Typ sf) \<and>
          load h m = Some (VStruct vs) \<and> i < length vs \<longrightarrow>
            (\<exists>h'. Field_Set (fieldAt m sf i) (Some (t, v)) h = Inr (None, h') \<and>
                  load h' m =
                    Some (VStruct (vs[i := (if directlyAssignable (Typ sf) t then v else VIface (Some (t, v)))]))))"
proof -
  have 1: "Field_Field f name h = Inr (Some (fieldAt m sf i))"
    using Field_Field_record[OF assms(2,3), of name] assms(4) by simp
  have 2: "Value_CanAddr (value_f (fieldAt m sf i))"
    by (simp add: fieldAt_def)
  have 3: "Value_CanSet (value_f (fieldAt m sf i)) = Field_IsExported (fieldAt m sf i)"
    by (auto simp: fieldAt_def Value_CanSet_def Field_IsExported_def)
  have 4: "\<exists>h'. Field_Set (fieldAt m sf i) (Some (t, v)) h = Inr (None, h') \<and>
                  load h' m =
                    Some (VStruct (vs[i := (if directlyAssignable (Typ sf) t then v else VIface (Some (t, v)))]))"
    if e: "Field_IsExported (fieldAt m sf i)" and a: "AssignableTo t (Typ sf)"
      and l: "load h m = Some (VStruct vs)" and i: "i < length vs"
  proof -
    from store_field[OF l i, of "if directlyAssignable (Typ sf) t then v else VIface (Some (t, v))"]
    obtain h' where
      s: "store h (fst m, snd m @ [i]) (if directlyAssignable (Typ sf) t then v else VIface (Some (t, v))) = Some h'"
      and r: "load h' m = Some (VStruct (vs[i := (if directlyAssignable (Typ sf) t then v else VIface (Some (t, v)))]))"
      by blast
    from e 3 have c: "Value_CanSet (value_f (fieldAt m sf i))" by simp
    have "Field_Set (fieldAt m sf i) (Some (t, v)) h = Inr (None, h')"
      using e c a s by (simp add: Field_Set_Some) (simp add: fieldAt_def)
    with r show ?thesis by blast
  qed
  from 1 2 3 4 show ?thesis by blast
qed

text \<open>
  C2, amended, at the example: \<^verbatim>\<open>Lead.Field("Who").Field("Name").Set("Bea")\<close>, after
  which the team record in storage holds Bea.
\<close>

theorem Field_keeps_original_storage_witness:
  "Field_Field fLead ''Who'' h1 =
     Inr (Some (fieldAt (0, [0]) (StructField ''Who'' [] Person [] False) 0)) \<and>
   Field_Field (fieldAt (0, [0]) (StructField ''Who'' [] Person [] False) 0) ''Name'' h1 =
     Inr (Some (fieldAt (0, [0, 0]) (StructField ''Name'' [] TString [] False) 0)) \<and>
   Field_Set (fieldAt (0, [0, 0]) (StructField ''Name'' [] TString [] False) 0)
     (Some (TString, VString ''Bea'')) h1 =
     Inr (None, Map.empty(0 \<mapsto>
            VStruct [VStruct [VStruct [VString ''Bea'', VInt 30], VIface None, ann]]))"
proof -
  let ?who = "StructField ''Who'' [] Person [] False"
  let ?name = "StructField ''Name'' [] TString [] False"
  let ?age = "StructField ''Age'' [] TInt [(''structs'', ''-'')] False"
  let ?g = "fieldAt (0, [0]) ?who 0"
  let ?k = "fieldAt (0, [0, 0]) ?name 0"
  have a1: "Value_CanAddr (value_f fLead)" and r1: "\<not> flagRO (value_f fLead)"
    and rec1: "record_of h1 (value_f fLead) =
      Some ([?who, StructField ''Any'' [] TInterface [] False,
             StructField ''hidden'' ''main'' Person [] False], (0, [0]))"
    by (simp_all add: fLead_def Outer_def)
  have f1: "find_field [?who, StructField ''Any'' [] TInterface [] False,
             StructField ''hidden'' ''main'' Person [] False] ''Who'' 0 = Some (?who, 0)"
    by simp
  have a2: "Value_CanAddr (value_f ?g)" and r2: "\<not> flagRO (value_f ?g)"
    and rec2: "record_of h1 (value_f ?g) = Some ([?name, ?age], (0, [0, 0]))"
    by (simp_all add: fieldAt_def Person_def)
  have f2: "find_field [?name, ?age] ''Name'' 0 = Some (?name, 0)"
    by simp
  have e: "Field_IsExported ?k" and as: "AssignableTo TString (Typ ?name)"
    and l: "load h1 (0, [0, 0]) = Some (VStruct [VString ''Ann'', VInt 30])"
    by (simp_all add: Field_IsExported_def fieldAt_def AssignableTo_def directlyAssignable_def implements_def load_def h1_def ann_def)
  from Field_keeps_original_storage[OF a2 r2 rec2 f2,
      of TString "[VString ''Ann'', VInt 30]" "VString ''Bea''"] e as l
  obtain h' where s: "Field_Set ?k (Some (TString, VString ''Bea'')) h1 = Inr (None, h')"
    and k: "Field_Field ?g ''Name'' h1 = Inr (Some ?k)"
    by auto
  from s have "h' = Map.empty(0 \<mapsto>
            VStruct [VStruct [VStruct [VString ''Bea'', VInt 30], VIface None, ann]])"
    by (auto simp: Field_Set_Some Field_IsExported_def fieldAt_def Value_CanSet_def
        AssignableTo_def directlyAssignable_def implements_def store_def h1_def ann_def split: if_splits option.splits)
  with s k Field_keeps_original_storage[OF a1 r1 rec1 f1] show ?thesis by auto
qed

text \<open>
  C7. Descriptors made by descent are claimed to carry the default tag key of the
  descriptor they come from. The composite literal at the end of \<^verbatim>\<open>Field\<close> leaves
  \<^verbatim>\<open>defaultTag\<close> out: looked up on the descriptor of \<^verbatim>\<open>Lead\<close>, whose key is
  \<^verbatim>\<open>structs\<close>, the descriptor of \<^verbatim>\<open>Who\<close> has the empty key. \<^verbatim>\<open>Fields()\<close> on it
  then looks the tags up under the empty key and returns \<^verbatim>\<open>Age\<close> too, against the
  marker \<^verbatim>\<open>structs:"-"\<close> that the comment on \<^verbatim>\<open>Fields\<close> documents.
\<close>

theorem Field_drops_defaultTag:
  "defaultTag fLead = ''structs'' \<and>
   Field_Field fLead ''Who'' h1 =
     Inr (Some \<lparr>value_f = Value Person False False (Addr (0, [0, 0])),
                field_f = StructField ''Who'' [] Person [] False, defaultTag = []\<rparr>) \<and>
   Field_Fields \<lparr>value_f = Value Person False False (Addr (0, [0, 0])),
                 field_f = StructField ''Who'' [] Person [] False, defaultTag = []\<rparr> h1 =
     Inr [\<lparr>value_f = Value TString False False (Addr (0, [0, 0, 0])),
           field_f = StructField ''Name'' [] TString [] False, defaultTag = []\<rparr>,
          \<lparr>value_f = Value TInt False False (Addr (0, [0, 0, 1])),
           field_f = StructField ''Age'' [] TInt [(''structs'', ''-'')] False,
           defaultTag = []\<rparr>]"
  by (simp add: fLead_def Outer_def Person_def Field_Field_def Value_Interface_def
      structVal_def Value_FieldByName_def Value_Field_def Field_Fields_def getFields_def
      Tag_Get_def)

section \<open>Fields\<close>

lemma find_field_bound: "find_field sfs name k = Some (sf, i) \<Longrightarrow> i < k + length sfs"
proof (induction sfs arbitrary: k)
  case Nil
  then show ?case by simp
next
  case (Cons a sfs)
  show ?case
  proof (cases "Name a = name")
    case True
    with Cons.prems show ?thesis by simp
  next
    case False
    with Cons.prems have "find_field sfs name (Suc k) = Some (sf, i)" by simp
    from Cons.IH[OF this] show ?thesis by simp
  qed
qed

lemma wrapFields_record:
  assumes ok: "(\<exists>l. st = Addr l) \<or> (\<exists>vs. st = Copy (VStruct vs) \<and> length vs = length sfs)"
  shows "set xs \<subseteq> set sfs \<Longrightarrow>
   \<exists>ds. wrapFields (Value (TStruct n sfs) s e st) tagName xs = Inr ds \<and>
        map field_f ds = filter (\<lambda>sf. Tag_Get (Tag sf) tagName \<noteq> ''-'') xs"
proof (induction xs)
  case Nil
  then show ?case by simp
next
  case (Cons sf xs)
  then obtain ds where ds: "wrapFields (Value (TStruct n sfs) s e st) tagName xs = Inr ds"
    "map field_f ds = filter (\<lambda>sf. Tag_Get (Tag sf) tagName \<noteq> ''-'') xs"
    by auto
  from Cons.prems have "sf \<in> set sfs" by simp
  from find_field_found[OF this, of 0] obtain sf' j where
    ff: "find_field sfs (Name sf) 0 = Some (sf', j)" by auto
  from find_field_bound[OF ff] have j: "j < length sfs" by simp
  from ok j have "field_storage st j \<noteq> None" by auto
  with ff obtain fv where
    "Value_FieldByName (Value (TStruct n sfs) s e st) (Name sf) = Inr fv"
    by (auto simp: Value_FieldByName_def Value_Field_def)
  with ds show ?case by auto
qed

text \<open>
  \<^verbatim>\<open>Fields\<close> on a descriptor that denotes a record returns, and returns the
  descriptors of the fields without the marker, in declared order.
\<close>

lemma Field_Fields_fields_of:
  assumes "fields_of h (value_f f) = Some sfs"
  shows "\<exists>ds. Field_Fields f h = Inr ds \<and>
          map field_f ds = filter (\<lambda>sf. Tag_Get (Tag sf) (defaultTag f) \<noteq> ''-'') sfs"
proof (cases "(h, value_f f)" rule: fields_of.cases)
  case (1 h' n sfs' s e l)
  with assms wrapFields_record[of "Addr l" sfs sfs n s e "defaultTag f"] show ?thesis
    by (auto simp: Field_Fields_def getFields_def)
next
  case (2 h' n sfs' s e vs)
  with assms wrapFields_record[of "Copy (VStruct vs)" sfs sfs n s e "defaultTag f"]
  show ?thesis
    by (auto simp: Field_Fields_def getFields_def split: if_splits)
next
  case (3 h' n sfs' s e st)
  with assms obtain m where m: "contents h st = Some (VPtr (Some m))" and [simp]: "sfs' = sfs"
    by (auto split: option.splits val.splits)
  with 3 wrapFields_record[of "Addr m" sfs sfs n s e "defaultTag f"] show ?thesis
    by (auto simp: Field_Fields_def getFields_def)
qed (use assms in auto)

text \<open>
  C6, as stated, has \<^verbatim>\<open>Field(name)\<close> return a descriptor for every field that carries
  the skip marker. Over a copy of the record, \<^verbatim>\<open>Fields()\<close> leaves \<^verbatim>\<open>Age\<close> out and
  \<^verbatim>\<open>Field("Age")\<close> panics when it takes the address of the copy.
\<close>

theorem skip_marker_lookup_on_copy_panics:
  "Tag_Get (Tag (StructField ''Age'' [] TInt [(''structs'', ''-'')] False)) (defaultTag fCopy)
     = ''-'' \<and>
   Field_Fields fCopy h0 =
     Inr [\<lparr>value_f = Value TString False False (Copy (VString ''Ann'')),
           field_f = StructField ''Name'' [] TString [] False, defaultTag = ''structs''\<rparr>] \<and>
   Field_Field fCopy ''Age'' h0 = Inl (Panic ''reflect.Value.Addr of unaddressable value'')"
  by (simp add: Field_Fields_def getFields_def fCopy_def Person_def Tag_Get_def
      Value_FieldByName_def Value_Field_def ann_def Field_Field_def)

text \<open>
  C6, amended. Let a descriptor denote a record (an addressable struct, a copy of a
  struct, or a non-nil pointer to a struct), and let a field of the record have the tag
  value \<^verbatim>\<open>-\<close> under the descriptor's default tag key. Then \<^verbatim>\<open>Fields()\<close> returns
  the descriptors of exactly the fields without the marker, in declared order, so that
  field is not among them (nor is its name, field names being distinct). When moreover
  the descriptor is readable and the record is addressable or behind the pointer,
  \<^verbatim>\<open>Field(name)\<close> returns the descriptor of that field, and when the field is
  exported \<^verbatim>\<open>Value()\<close> on it returns the field's current value: the stored value
  under the field's type, or for a field of interface type the interface value stored.
\<close>

theorem skip_marker_only_in_Fields:
  assumes "fields_of h (value_f f) = Some sfs"
    and "find_field sfs name 0 = Some (sf, i)"
    and "Tag_Get (Tag sf) (defaultTag f) = ''-''"
  shows "(\<exists>ds. Field_Fields f h = Inr ds \<and>
            map field_f ds = filter (\<lambda>s. Tag_Get (Tag s) (defaultTag f) \<noteq> ''-'') sfs \<and>
            sf \<notin> field_f ` set ds \<and>
            (distinct (map Name sfs) \<longrightarrow> name \<notin> Field_Name ` set ds)) \<and>
         (\<not> flagRO (value_f f) \<and> record_of h (value_f f) = Some (sfs, m) \<longrightarrow>
            Field_Field f name h = Inr (Some (fieldAt m sf i)) \<and>
            Field_Name (fieldAt m sf i) = name \<and>
            (PkgPath sf = [] \<and> load h (fst m, snd m @ [i]) = Some x \<and>
             (Typ sf = TInterface \<longrightarrow> x = VIface d) \<longrightarrow>
               Field_Value (fieldAt m sf i) h =
                 Inr (if Typ sf = TInterface then d else Some (Typ sf, x))))"
proof -
  from Field_Fields_fields_of[OF assms(1)] obtain ds where
    ds: "Field_Fields f h = Inr ds"
    "map field_f ds = filter (\<lambda>s. Tag_Get (Tag s) (defaultTag f) \<noteq> ''-'') sfs"
    by blast
  have set_ds: "field_f ` set ds = {s \<in> set sfs. Tag_Get (Tag s) (defaultTag f) \<noteq> ''-''}"
    using ds(2) by (metis set_filter set_map)
  have a: "sf \<notin> field_f ` set ds" using set_ds assms(3) by simp
  have b: "name \<notin> Field_Name ` set ds" if d: "distinct (map Name sfs)"
  proof
    assume "name \<in> Field_Name ` set ds"
    then obtain g where g: "g \<in> set ds" "Name (field_f g) = name"
      by (auto simp: Field_Name_def)
    then have in1: "field_f g \<in> set sfs"
      and t: "Tag_Get (Tag (field_f g)) (defaultTag f) \<noteq> ''-''"
      using set_ds by auto
    have in2: "sf \<in> set sfs" and n: "Name sf = name"
      using assms(2) find_field_mem find_field_Name by auto
    from d have "inj_on Name (set sfs)" by (simp add: distinct_map)
    with in1 in2 g(2) n have "field_f g = sf" by (auto dest: inj_onD)
    with t assms(3) show False by simp
  qed
  have c: "Field_Field f name h = Inr (Some (fieldAt m sf i))"
    if "\<not> flagRO (value_f f)" "record_of h (value_f f) = Some (sfs, m)"
    using Field_Field_record[OF that, of name] assms(2) by simp
  have d: "Field_Name (fieldAt m sf i) = name"
    using find_field_Name[OF assms(2)] by (simp add: Field_Name_def fieldAt_def)
  have e: "Field_Value (fieldAt m sf i) h =
             Inr (if Typ sf = TInterface then d else Some (Typ sf, x))"
    if "PkgPath sf = []" "load h (fst m, snd m @ [i]) = Some x"
      "Typ sf = TInterface \<longrightarrow> x = VIface d"
    using that by (auto simp: Field_Value_def Value_Interface_def fieldAt_def)
  from ds a b c d e show ?thesis by blast
qed

text \<open>
  C6, amended, at the spec's example, nested as the field \<^verbatim>\<open>Who\<close>: \<^verbatim>\<open>Fields()\<close>
  returns the descriptor of \<^verbatim>\<open>Name\<close> alone, over the original record and over a copy
  of it, and \<^verbatim>\<open>Field("Age")\<close> on the original a descriptor whose value is 30.
\<close>

theorem skip_marker_only_in_Fields_witness:
  "Field_Fields fWho h0 =
     Inr [\<lparr>value_f = Value TString False False (Addr (0, [0, 0])),
           field_f = StructField ''Name'' [] TString [] False, defaultTag = ''structs''\<rparr>] \<and>
   Field_Field fWho ''Age'' h0 =
     Inr (Some (fieldAt (0, [0]) (StructField ''Age'' [] TInt [(''structs'', ''-'')] False) 1)) \<and>
   Field_Value (fieldAt (0, [0]) (StructField ''Age'' [] TInt [(''structs'', ''-'')] False) 1) h0 =
     Inr (Some (TInt, VInt 30)) \<and>
   Field_Fields fCopy h0 =
     Inr [\<lparr>value_f = Value TString False False (Copy (VString ''Ann'')),
           field_f = StructField ''Name'' [] TString [] False, defaultTag = ''structs''\<rparr>]"
proof -
  let ?name = "StructField ''Name'' [] TString [] False"
  let ?age = "StructField ''Age'' [] TInt [(''structs'', ''-'')] False"
  have fo: "fields_of h0 (value_f fWho) = Some [?name, ?age]"
    and r: "\<not> flagRO (value_f fWho)"
    and rec: "record_of h0 (value_f fWho) = Some ([?name, ?age], (0, [0]))"
    by (simp_all add: fWho_def Person_def)
  have fnd: "find_field [?name, ?age] ''Age'' 0 = Some (?age, 1)" by simp
  have tag: "Tag_Get (Tag ?age) (defaultTag fWho) = ''-''"
    by (simp add: Tag_Get_def fWho_def)
  have l: "load h0 (0, [0, 1]) = Some (VInt 30)"
    by (simp add: load_def h0_def ann_def)
  have fs: "Field_Fields fWho h0 =
     Inr [\<lparr>value_f = Value TString False False (Addr (0, [0, 0])),
           field_f = ?name, defaultTag = ''structs''\<rparr>]"
    by (simp add: Field_Fields_def getFields_def fWho_def Person_def Tag_Get_def
        Value_FieldByName_def Value_Field_def)
  have foc: "fields_of h0 (value_f fCopy) = Some [?name, ?age]"
    by (simp add: fCopy_def Person_def ann_def)
  have tagc: "Tag_Get (Tag ?age) (defaultTag fCopy) = ''-''"
    by (simp add: Tag_Get_def fCopy_def)
  have fsc: "Field_Fields fCopy h0 =
     Inr [\<lparr>value_f = Value TString False False (Copy (VString ''Ann'')),
           field_f = ?name, defaultTag = ''structs''\<rparr>]"
    by (simp add: Field_Fields_def getFields_def fCopy_def Person_def Tag_Get_def
        Value_FieldByName_def Value_Field_def ann_def)
  from skip_marker_only_in_Fields[OF fo fnd tag, of "(0, [0])" "VInt 30"]
    skip_marker_only_in_Fields[OF foc fnd tagc] r rec l fs fsc
  show ?thesis by simp
qed

end
